theory Spec2Isabelle
  imports Main "HOL-Library.Sublist"
begin

section \<open>Graph utilities of mitosheet: titles, tab names, parameter code, HTML extraction\<close>

text \<open>
  A shallow embedding of \<^verbatim>\<open>mitosheet/step_performers/graph_steps/graph_utils.py\<close>.
  Python strings are \<^typ>\<open>string\<close>, a raised exception is the \<open>Inl\<close> branch of a sum,
  an insertion-ordered \<^verbatim>\<open>dict\<close> is an association list, and each \<^verbatim>\<open>while\<close> loop is a
  recursive function with a termination proof.
\<close>

subsection \<open>Python built-ins used by the module\<close>

datatype py_error = KeyError string

text \<open>\<^verbatim>\<open>sep.join(xs)\<close>: the elements of \<open>xs\<close> with \<open>sep\<close> between neighbours.\<close>

fun join :: "string \<Rightarrow> string list \<Rightarrow> string" where
  "join sep [] = []"
| "join sep [x] = x"
| "join sep (x # y # ys) = x @ sep @ join sep (y # ys)"

text \<open>\<^verbatim>\<open>s * n\<close>: \<open>n\<close> copies of \<open>s\<close>, none when \<open>n\<close> is not positive.\<close>

definition str_mul :: "string \<Rightarrow> int \<Rightarrow> string" where
  "str_mul s n = concat (replicate (nat n) s)"

text \<open>
  \<^verbatim>\<open>s.find(sub, start)\<close>: the lowest index at or after \<open>start\<close> where \<open>sub\<close> occurs in
  \<open>s\<close>, or \<open>-1\<close>. A negative \<open>start\<close> counts from the end and is clipped at \<open>0\<close>; a
  \<open>start\<close> beyond the end finds nothing. \<open>find_first\<close> is the search itself, from the
  beginning of a string.
\<close>

fun find_first :: "string \<Rightarrow> string \<Rightarrow> nat option" where
  "find_first sub [] = (if sub = [] then Some 0 else None)"
| "find_first sub (c # cs) =
     (if prefix sub (c # cs) then Some 0 else map_option Suc (find_first sub cs))"

definition py_find :: "string \<Rightarrow> string \<Rightarrow> int \<Rightarrow> int" where
  "py_find s sub start =
     (let n = int (length s);
          start = (if start < 0 then max 0 (start + n) else start)
      in if n < start then - 1
         else (case find_first sub (drop (nat start) s) of
                 None \<Rightarrow> - 1
               | Some i \<Rightarrow> start + int i))"

text \<open>
  \<^verbatim>\<open>s[lo:hi]\<close>: a negative bound counts from the end, and both bounds are clipped to
  the string; the slice is empty when \<open>hi\<close> does not lie after \<open>lo\<close>.
\<close>

definition py_slice :: "string \<Rightarrow> int \<Rightarrow> int \<Rightarrow> string" where
  "py_slice s lo hi =
     (let n = int (length s);
          lo = (if lo < 0 then max 0 (lo + n) else min lo n);
          hi = (if hi < 0 then max 0 (hi + n) else min hi n)
      in take (nat (hi - lo)) (drop (nat lo) s))"

text \<open>
  The decimal numeral that an f-string writes for a non-negative integer. The only
  integer the module formats is the counter of \<^verbatim>\<open>get_new_graph_tab_name\<close>, which starts
  at \<open>0\<close> and is only ever incremented, so it is a \<^typ>\<open>nat\<close>.
\<close>

definition digit_char :: "nat \<Rightarrow> char" where
  "digit_char d = char_of (48 + d)"

fun str_nat :: "nat \<Rightarrow> string" where
  "str_nat n =
     (if n < 10 then [digit_char n] else str_nat (n div 10) @ [digit_char (n mod 10)])"

declare str_nat.simps [simp del]

subsection \<open>Graph types and their title labels\<close>

definition SCATTER :: string where "SCATTER = ''scatter''"
definition LINE :: string where "LINE = ''line''"
definition BAR :: string where "BAR = ''bar''"
definition HISTOGRAM :: string where "HISTOGRAM = ''histogram''"
definition BOX :: string where "BOX = ''box''"
definition STRIP :: string where "STRIP = ''strip''"
definition VIOLIN :: string where "VIOLIN = ''violin''"
definition ECDF :: string where "ECDF = ''ecdf''"
definition DENSITY_HEATMAP :: string where "DENSITY_HEATMAP = ''density heatmap''"
definition DENSITY_CONTOUR :: string where "DENSITY_CONTOUR = ''density contour''"

definition GRAPH_TITLE_LABELS_items :: "(string \<times> string) list" where
  "GRAPH_TITLE_LABELS_items =
     [(SCATTER, ''scatter plot''),
      (LINE, ''line''),
      (BAR, ''bar chart''),
      (BOX, ''box plot''),
      (HISTOGRAM, ''histogram''),
      (STRIP, ''strip''),
      (VIOLIN, ''violin''),
      (ECDF, ''ecdf''),
      (DENSITY_HEATMAP, ''density heatmap''),
      (DENSITY_CONTOUR, ''density contour'')]"

definition GRAPH_TITLE_LABELS :: "string \<rightharpoonup> string" where
  "GRAPH_TITLE_LABELS = map_of GRAPH_TITLE_LABELS_items"

lemmas graph_type_defs =
  SCATTER_def LINE_def BAR_def HISTOGRAM_def BOX_def STRIP_def VIOLIN_def ECDF_def
  DENSITY_HEATMAP_def DENSITY_CONTOUR_def

definition TAB :: string where "TAB = ''    ''"

subsection \<open>\<^verbatim>\<open>param_dict_to_code\<close>\<close>

text \<open>
  A parameter value is a scalar or a nested dictionary; a dictionary keeps its items in
  insertion order. The scalars are written by \<^verbatim>\<open>column_header_to_transpiled_code\<close> of
  \<^verbatim>\<open>mitosheet.transpiler.transpile_utils\<close>, which is not part of the sources at hand: the
  model takes it as the parameter \<open>to_code\<close>.

  \<open>param_dict_items\<close> is the \<^verbatim>\<open>for\<close> loop over the items, with the loop state
  \<open>value_num\<close> and \<open>code\<close>. The recursive call on a nested dictionary passes \<open>level + 1\<close>
  and nothing else, so the nested call runs with the default \<^verbatim>\<open>as_single_line=False\<close>.
\<close>

datatype 'v param_value = Scalar 'v | Dict "(string \<times> 'v param_value) list"

fun param_dict_to_code ::
      "('v \<Rightarrow> string) \<Rightarrow> (string \<times> 'v param_value) list \<Rightarrow> int \<Rightarrow> bool \<Rightarrow> string"
  and param_dict_items ::
      "('v \<Rightarrow> string) \<Rightarrow> (string \<times> 'v param_value) list \<Rightarrow> int \<Rightarrow> bool \<Rightarrow> nat \<Rightarrow> string
         \<Rightarrow> string"
where
  "param_dict_to_code to_code param_dict level as_single_line =
     (let TAB_CONSTANT = (if as_single_line then '''' else TAB);
          NEWLINE_CONSTANT = (if as_single_line then '''' else ''\<newline>'');
          code = (if level = 0 then NEWLINE_CONSTANT else ''dict('' @ NEWLINE_CONSTANT);
          code = param_dict_items to_code param_dict level as_single_line 0 code
      in if level = 0 then code @ NEWLINE_CONSTANT
         else code @ NEWLINE_CONSTANT @ str_mul TAB_CONSTANT level @ '')'')"
| "param_dict_items to_code [] level as_single_line value_num code = code"
| "param_dict_items to_code ((key, val) # rest) level as_single_line value_num code =
     (let TAB_CONSTANT = (if as_single_line then '''' else TAB);
          NEWLINE_CONSTANT = (if as_single_line then '''' else ''\<newline>'');
          code_chunk =
            (case val of
               Dict d \<Rightarrow> key @ '' = '' @ param_dict_to_code to_code d (level + 1) False
             | Scalar v \<Rightarrow> key @ ''='' @ to_code v);
          code = (if value_num \<noteq> 0 then code @ '', '' @ NEWLINE_CONSTANT else code);
          code = code @ str_mul TAB_CONSTANT (level + 1)
      in param_dict_items to_code rest level as_single_line (value_num + 1) (code @ code_chunk))"

lemmas param_dict_to_code_unfold = param_dict_to_code.simps(1)

declare param_dict_to_code.simps(1) [simp del]

text \<open>One entry of the output: its indentation and the \<open>code_chunk\<close> of the loop body.\<close>

definition entry_code ::
  "('v \<Rightarrow> string) \<Rightarrow> int \<Rightarrow> bool \<Rightarrow> string \<times> 'v param_value \<Rightarrow> string" where
  "entry_code to_code level as_single_line =
     (\<lambda>(key, val).
        str_mul (if as_single_line then '''' else TAB) (level + 1)
        @ (case val of
             Scalar v \<Rightarrow> key @ ''='' @ to_code v
           | Dict d \<Rightarrow> key @ '' = '' @ param_dict_to_code to_code d (level + 1) False))"

subsection \<open>\<^verbatim>\<open>get_graph_title\<close>\<close>

text \<open>
  The column headers have the type \<^verbatim>\<open>ColumnHeader\<close> of \<^verbatim>\<open>mitosheet.types\<close>, which is not
  part of the sources at hand; the model takes Python's \<^verbatim>\<open>str\<close> on that type as the
  parameter \<open>str\<close>. The subscript \<^verbatim>\<open>GRAPH_TITLE_LABELS[graph_type]\<close> raises \<^verbatim>\<open>KeyError\<close>
  on a key that is not in the table.
\<close>

definition get_graph_title ::
  "('h \<Rightarrow> string) \<Rightarrow> 'h list \<Rightarrow> 'h list \<Rightarrow> bool \<Rightarrow> string \<Rightarrow> py_error + string" where
  "get_graph_title str x_axis_column_headers y_axis_column_headers filtered graph_type =
     (let graph_filter_label = (if filtered then Some ''(first 1000 rows)'' else None);
          all_column_headers =
            join '', '' (map str (x_axis_column_headers @ y_axis_column_headers))
      in case GRAPH_TITLE_LABELS graph_type of
           None \<Rightarrow> Inl (KeyError graph_type)
         | Some graph_title_label \<Rightarrow>
             (let graph_title_components =
                    (case graph_filter_label of
                       Some l \<Rightarrow> [all_column_headers, l, graph_title_label]
                     | None \<Rightarrow> [all_column_headers, graph_title_label])
              in Inr (join '' '' graph_title_components)))"

subsection \<open>\<^verbatim>\<open>get_new_graph_tab_name\<close>\<close>

text \<open>
  The dictionary maps graph ids to the data of each graph, itself a dictionary; the
  subscript \<^verbatim>\<open>graph_data["graphTabName"]\<close> raises \<^verbatim>\<open>KeyError\<close> where the key is missing.
  \<open>graph_name n\<close> is the f-string \<^verbatim>\<open>f'graph{n}'\<close>. The state of the \<^verbatim>\<open>while\<close> loop is the
  counter \<open>graph_number_indicator\<close>; \<open>new_graph_name\<close> is always the f-string of the
  counter, and \<open>name_loop\<close> computes it where the loop tests it.
\<close>

type_synonym graph_data = "string \<rightharpoonup> string"

fun all_graph_names_loop :: "graph_data list \<Rightarrow> string list \<Rightarrow> py_error + string list" where
  "all_graph_names_loop [] all_graph_names = Inr all_graph_names"
| "all_graph_names_loop (graph_data # rest) all_graph_names =
     (case graph_data ''graphTabName'' of
        None \<Rightarrow> Inl (KeyError ''graphTabName'')
      | Some name \<Rightarrow> all_graph_names_loop rest (all_graph_names @ [name]))"

definition graph_name :: "nat \<Rightarrow> string" where
  "graph_name n = ''graph'' @ str_nat n"

text \<open>
  The probing loop ends because the decimal numerals of different numbers differ: only
  finitely many numbers have their name in the list. The numeral is read back by
  \<open>nat_of_digits\<close>.
\<close>

definition digit_val :: "char \<Rightarrow> nat" where
  "digit_val c = of_char c - 48"

fun nat_of_digits :: "nat \<Rightarrow> string \<Rightarrow> nat" where
  "nat_of_digits acc [] = acc"
| "nat_of_digits acc (c # cs) = nat_of_digits (acc * 10 + digit_val c) cs"

lemma nat_of_digits_append:
  "nat_of_digits acc (xs @ ys) = nat_of_digits (nat_of_digits acc xs) ys"
  by (induction xs arbitrary: acc) auto

lemma digit_val_digit_char: "d < 10 \<Longrightarrow> digit_val (digit_char d) = d"
  by (simp add: digit_val_def digit_char_def)

lemma nat_of_digits_str_nat: "nat_of_digits 0 (str_nat n) = n"
proof (induction n rule: str_nat.induct)
  case (1 n)
  show ?case
  proof (cases "n < 10")
    case True
    then show ?thesis by (simp add: str_nat.simps [of n] digit_val_digit_char)
  next
    case False
    with 1 show ?thesis
      by (simp add: str_nat.simps [of n] nat_of_digits_append digit_val_digit_char)
  qed
qed

lemma inj_str_nat: "inj str_nat"
  by (rule inj_on_inverseI [where g = "nat_of_digits 0"]) (rule nat_of_digits_str_nat)

lemma inj_graph_name: "inj graph_name"
  using inj_str_nat by (auto simp: inj_def graph_name_def)

lemma finite_graph_numbers: "finite {m. graph_name m \<in> set names}"
  using finite_vimageI [OF finite_set inj_graph_name, of names] by (simp add: vimage_def)

function name_loop :: "string list \<Rightarrow> nat \<Rightarrow> string" where
  "name_loop all_graph_names graph_number_indicator =
     (let new_graph_name = graph_name graph_number_indicator
      in if new_graph_name \<in> set all_graph_names
         then name_loop all_graph_names (graph_number_indicator + 1)
         else new_graph_name)"
  by pat_completeness auto
termination
proof (relation "measure (\<lambda>(names, n). card {m. n \<le> m \<and> graph_name m \<in> set names})")
  show "wf (measure (\<lambda>(names, n). card {m. n \<le> m \<and> graph_name m \<in> set names}))"
    by simp
next
  fix all_graph_names :: "string list" and graph_number_indicator :: nat and x
  assume "x = graph_name graph_number_indicator" and "x \<in> set all_graph_names"
  then have here: "graph_name graph_number_indicator \<in> set all_graph_names" by simp
  let ?A = "{m. graph_number_indicator + 1 \<le> m \<and> graph_name m \<in> set all_graph_names}"
  let ?B = "{m. graph_number_indicator \<le> m \<and> graph_name m \<in> set all_graph_names}"
  have "finite ?B"
    by (rule finite_subset [OF _ finite_graph_numbers [of all_graph_names]]) blast
  moreover have "?A \<subset> ?B"
  proof
    show "?A \<subseteq> ?B" by auto
    have "graph_number_indicator \<in> ?B" "graph_number_indicator \<notin> ?A" using here by auto
    then show "?A \<noteq> ?B" by blast
  qed
  ultimately have "card ?A < card ?B" by (rule psubset_card_mono)
  then show "((all_graph_names, graph_number_indicator + 1), (all_graph_names, graph_number_indicator))
        \<in> measure (\<lambda>(names, n). card {m. n \<le> m \<and> graph_name m \<in> set names})"
    by simp
qed

declare name_loop.simps [simp del]

definition get_new_graph_tab_name :: "(string \<times> graph_data) list \<Rightarrow> py_error + string" where
  "get_new_graph_tab_name graph_data_dict =
     (case all_graph_names_loop (map snd graph_data_dict) [] of
        Inl e \<Rightarrow> Inl e
      | Inr all_graph_names \<Rightarrow> Inr (name_loop all_graph_names 0))"

text \<open>The tab names that the graphs of a dictionary have.\<close>

definition existing_tab_names :: "(string \<times> graph_data) list \<Rightarrow> string set" where
  "existing_tab_names graph_data_dict =
     {name. \<exists>graph_data \<in> snd ` set graph_data_dict. graph_data ''graphTabName'' = Some name}"

subsection \<open>\<^verbatim>\<open>get_html_and_script_from_figure\<close>\<close>

text \<open>
  The figure is rendered by plotly's \<^verbatim>\<open>write_html\<close>, outside this module; the model
  starts from the rendered document \<open>original_html\<close>. Neither \<^verbatim>\<open>find\<close> nor slicing
  raises, so the function returns a value on every document.
\<close>

definition DIV_OPEN :: string where \<open>DIV_OPEN = ''<div id=''\<close>
definition DIV_CLOSE :: string where \<open>DIV_CLOSE = ''</div>''\<close>
definition SCRIPT_OPEN :: string where \<open>SCRIPT_OPEN = ''<script type="text/javascript">''\<close>
definition SCRIPT_CLOSE :: string where \<open>SCRIPT_CLOSE = ''</script>''\<close>

lemma py_find_ge: "py_find s sub start \<noteq> - 1 \<Longrightarrow> start \<le> py_find s sub start"
  by (auto simp: py_find_def Let_def split: if_splits option.splits)

function script_loop :: "string \<Rightarrow> string \<Rightarrow> int \<Rightarrow> string" where
  "script_loop original_html script index =
     (if index < int (length original_html) then
        (let script_start = py_find original_html SCRIPT_OPEN index;
             script_end = py_find original_html SCRIPT_CLOSE script_start
         in if script_start = - 1 \<or> script_end = - 1 then script
            else (let script_start = script_start + int (length SCRIPT_OPEN);
                      script = script @ py_slice original_html script_start script_end
                                 @ '';\<newline>'';
                      index = script_end + 9
                  in script_loop original_html script index))
      else script)"
  by pat_completeness auto
termination
proof (relation
    "measure (\<lambda>(original_html, script, index). nat (int (length original_html) - index))")
  show "wf (measure (\<lambda>(original_html, script, index).
      nat (int (length original_html) - index)))"
    by simp
next
  fix original_html script script' :: string
    and index script_start script_end script_start' index' :: int
  assume less: "index < int (length original_html)"
    and s1: "script_start = py_find original_html SCRIPT_OPEN index"
    and s2: "script_end = py_find original_html SCRIPT_CLOSE script_start"
    and found: "\<not> (script_start = - 1 \<or> script_end = - 1)"
    and index': "index' = script_end + 9"
  from found s1 have "index \<le> script_start" using py_find_ge by blast
  moreover from found s2 have "script_start \<le> script_end" using py_find_ge by blast
  ultimately have "index < index'" using index' by simp
  with less show "((original_html, script', index'), (original_html, script, index))
      \<in> measure (\<lambda>(original_html, script, index). nat (int (length original_html) - index))"
    by simp
qed

declare script_loop.simps [simp del]

record html_and_script =
  html :: string
  script :: string

definition get_html_and_script_from_figure :: "string \<Rightarrow> html_and_script" where
  "get_html_and_script_from_figure original_html =
     (let div_html = py_slice original_html
                       (py_find original_html DIV_OPEN 0)
                       (py_find original_html DIV_CLOSE (py_find original_html DIV_OPEN 0));
          script = script_loop original_html '''' 0
      in \<lparr>html = div_html, script = script\<rparr>)"

text \<open>
  A document as a sequence of closed script blocks, each a pair of the text before its
  opening tag and its body, followed by a tail.
\<close>

definition script_blocks :: "(string \<times> string) list \<Rightarrow> string" where
  "script_blocks blocks =
     concat (map (\<lambda>(pre, body). pre @ SCRIPT_OPEN @ body @ SCRIPT_CLOSE) blocks)"

section \<open>Properties\<close>

subsection \<open>Titles\<close>

lemma dom_GRAPH_TITLE_LABELS:
  "dom GRAPH_TITLE_LABELS =
     {''scatter'', ''line'', ''bar'', ''box'', ''histogram'', ''strip'', ''violin'', ''ecdf'',
      ''density heatmap'', ''density contour''}"
  unfolding GRAPH_TITLE_LABELS_def dom_map_of_conv_image_fst GRAPH_TITLE_LABELS_items_def
    graph_type_defs
  by simp

lemma GRAPH_TITLE_LABELS_bar: "GRAPH_TITLE_LABELS ''bar'' = Some ''bar chart''"
  by (simp add: GRAPH_TITLE_LABELS_def GRAPH_TITLE_LABELS_items_def graph_type_defs)

lemma get_graph_title_known:
  assumes "GRAPH_TITLE_LABELS graph_type = Some label"
  shows "get_graph_title str xs ys filtered graph_type =
           Inr (join '', '' (map str (xs @ ys))
                @ (if filtered then '' (first 1000 rows)'' else '''') @ '' '' @ label)"
  using assms by (simp add: get_graph_title_def)

text \<open>
  Claim C5. The title is the comma-and-space-joined headers (those of the x axis, then
  those of the y axis), then the marker \<^verbatim>\<open>(first 1000 rows)\<close> exactly when \<open>filtered\<close> holds,
  then the label of the graph type, separated by single spaces. With the headers
  \<^verbatim>\<open>["Age"]\<close> and \<^verbatim>\<open>["Income"]\<close> and the type \<^verbatim>\<open>bar\<close> it is \<^verbatim>\<open>Age, Income bar chart\<close>
  unfiltered and \<^verbatim>\<open>Age, Income (first 1000 rows) bar chart\<close> filtered.
\<close>

theorem get_graph_title_joins_components:
  "(GRAPH_TITLE_LABELS graph_type = Some label \<longrightarrow>
      get_graph_title str xs ys filtered graph_type =
        Inr (join '' ''
               ([join '', '' (map str xs @ map str ys)]
                @ (if filtered then [''(first 1000 rows)''] else [])
                @ [label])))
   \<and> get_graph_title id [''Age''] [''Income''] False ''bar'' = Inr ''Age, Income bar chart''
   \<and> get_graph_title id [''Age''] [''Income''] True ''bar''
       = Inr ''Age, Income (first 1000 rows) bar chart''"
proof (intro conjI impI)
  assume "GRAPH_TITLE_LABELS graph_type = Some label"
  then show "get_graph_title str xs ys filtered graph_type =
        Inr (join '' ''
               ([join '', '' (map str xs @ map str ys)]
                @ (if filtered then [''(first 1000 rows)''] else [])
                @ [label]))"
    by (simp add: get_graph_title_known)
next
  show "get_graph_title id [''Age''] [''Income''] False ''bar'' = Inr ''Age, Income bar chart''"
    by (simp add: get_graph_title_known [OF GRAPH_TITLE_LABELS_bar])
  show "get_graph_title id [''Age''] [''Income''] True ''bar''
       = Inr ''Age, Income (first 1000 rows) bar chart''"
    by (simp add: get_graph_title_known [OF GRAPH_TITLE_LABELS_bar])
qed

theorem get_graph_title_joins_components_witness:
  "GRAPH_TITLE_LABELS ''histogram'' = Some ''histogram''
   \<and> get_graph_title id [''a'', ''b''] [''c''] True ''histogram''
       = Inr ''a, b, c (first 1000 rows) histogram''"
proof -
  have h: "GRAPH_TITLE_LABELS ''histogram'' = Some ''histogram''"
    by (simp add: GRAPH_TITLE_LABELS_def GRAPH_TITLE_LABELS_items_def graph_type_defs)
  from get_graph_title_joins_components
    [of "''histogram''" "''histogram''" id "[''a'', ''b'']" "[''c'']" True]
  show ?thesis using h by simp
qed

text \<open>
  Claim C7. A graph type outside the table of title labels makes \<^verbatim>\<open>get_graph_title\<close> raise
  (the \<^verbatim>\<open>KeyError\<close> of the table lookup) instead of returning a title, and a graph type
  inside the table, one of the ten listed, never does.
\<close>

theorem get_graph_title_fails_iff_unknown_type:
  "(graph_type \<notin> dom GRAPH_TITLE_LABELS \<longrightarrow>
      get_graph_title str xs ys filtered graph_type = Inl (KeyError graph_type))
   \<and> (graph_type \<in> dom GRAPH_TITLE_LABELS \<longrightarrow>
      (\<exists>title. get_graph_title str xs ys filtered graph_type = Inr title))
   \<and> dom GRAPH_TITLE_LABELS =
       {SCATTER, LINE, BAR, BOX, HISTOGRAM, STRIP, VIOLIN, ECDF, DENSITY_HEATMAP,
        DENSITY_CONTOUR}"
proof (intro conjI impI)
  assume "graph_type \<notin> dom GRAPH_TITLE_LABELS"
  then have "GRAPH_TITLE_LABELS graph_type = None" by blast
  then show "get_graph_title str xs ys filtered graph_type = Inl (KeyError graph_type)"
    by (simp add: get_graph_title_def)
next
  assume "graph_type \<in> dom GRAPH_TITLE_LABELS"
  then obtain label where "GRAPH_TITLE_LABELS graph_type = Some label" by blast
  then show "\<exists>title. get_graph_title str xs ys filtered graph_type = Inr title"
    by (simp add: get_graph_title_known)
next
  show "dom GRAPH_TITLE_LABELS =
       {SCATTER, LINE, BAR, BOX, HISTOGRAM, STRIP, VIOLIN, ECDF, DENSITY_HEATMAP,
        DENSITY_CONTOUR}"
    unfolding dom_GRAPH_TITLE_LABELS graph_type_defs by simp
qed

theorem get_graph_title_fails_iff_unknown_type_witness:
  "''pie'' \<notin> dom GRAPH_TITLE_LABELS
   \<and> get_graph_title id [''Age''] [''Income''] False ''pie'' = Inl (KeyError ''pie'')
   \<and> ''violin'' \<in> dom GRAPH_TITLE_LABELS
   \<and> (\<exists>title. get_graph_title id [''Age''] [''Income''] False ''violin'' = Inr title)"
proof -
  have out: "''pie'' \<notin> dom GRAPH_TITLE_LABELS"
    by (simp add: dom_GRAPH_TITLE_LABELS)
  have inside: "''violin'' \<in> dom GRAPH_TITLE_LABELS"
    by (simp add: dom_GRAPH_TITLE_LABELS)
  from get_graph_title_fails_iff_unknown_type [of "''pie''" id "[''Age'']" "[''Income'']" False]
    get_graph_title_fails_iff_unknown_type [of "''violin''" id "[''Age'']" "[''Income'']" False]
  show ?thesis using out inside by blast
qed

text \<open>
  Claim C9. With both header lists empty the comma-joined column list is the empty
  string, and it is still the first component of the space-join: the title starts with
  a space, followed by the remaining components.
\<close>

theorem get_graph_title_empty_headers:
  "GRAPH_TITLE_LABELS graph_type = Some label \<Longrightarrow>
     join '', '' (map str ([] @ [])) = ''''
     \<and> get_graph_title str [] [] filtered graph_type =
         Inr ('' '' @ join '' '' ((if filtered then [''(first 1000 rows)''] else []) @ [label]))"
  by (simp add: get_graph_title_known)

theorem get_graph_title_empty_headers_witness:
  "GRAPH_TITLE_LABELS ''bar'' = Some ''bar chart''
   \<and> get_graph_title id [] [] False ''bar'' = Inr '' bar chart''
   \<and> get_graph_title id [] [] True ''bar'' = Inr '' (first 1000 rows) bar chart''"
proof -
  note bar = GRAPH_TITLE_LABELS_bar
  from get_graph_title_empty_headers [OF bar, of id False]
    get_graph_title_empty_headers [OF bar, of id True]
  show ?thesis using bar by simp
qed

subsection \<open>Tab names\<close>

lemma all_graph_names_loop_Inr:
  assumes "\<forall>graph_data \<in> set gds. graph_data ''graphTabName'' \<noteq> None"
  shows "\<exists>names. all_graph_names_loop gds acc = Inr names
           \<and> set names = set acc
               \<union> {name. \<exists>graph_data \<in> set gds. graph_data ''graphTabName'' = Some name}"
  using assms
proof (induction gds arbitrary: acc)
  case Nil
  then show ?case by simp
next
  case (Cons gd gds)
  from Cons.prems obtain name where name: "gd ''graphTabName'' = Some name" by auto
  from Cons.prems have "\<forall>graph_data \<in> set gds. graph_data ''graphTabName'' \<noteq> None" by simp
  from Cons.IH [OF this, of "acc @ [name]"] obtain names where
    names: "all_graph_names_loop gds (acc @ [name]) = Inr names"
      "set names = set (acc @ [name])
         \<union> {name. \<exists>graph_data \<in> set gds. graph_data ''graphTabName'' = Some name}"
    by blast
  show ?case
  proof (intro exI conjI)
    show "all_graph_names_loop (gd # gds) acc = Inr names" using name names(1) by simp
    show "set names = set acc
        \<union> {name. \<exists>graph_data \<in> set (gd # gds). graph_data ''graphTabName'' = Some name}"
      using names(2) name by auto
  qed
qed

lemma name_loop_first_free:
  "\<exists>N\<ge>n. name_loop names n = graph_name N \<and> graph_name N \<notin> set names
      \<and> (\<forall>M. n \<le> M \<and> M < N \<longrightarrow> graph_name M \<in> set names)"
proof (induction names n rule: name_loop.induct)
  case (1 names n)
  show ?case
  proof (cases "graph_name n \<in> set names")
    case True
    from 1 [OF refl True] obtain N where
      N: "n + 1 \<le> N" "name_loop names (n + 1) = graph_name N" "graph_name N \<notin> set names"
        "\<forall>M. n + 1 \<le> M \<and> M < N \<longrightarrow> graph_name M \<in> set names"
      by blast
    have "\<forall>M. n \<le> M \<and> M < N \<longrightarrow> graph_name M \<in> set names"
    proof (intro allI impI)
      fix M assume M: "n \<le> M \<and> M < N"
      show "graph_name M \<in> set names"
      proof (cases "M = n")
        case True
        with \<open>graph_name n \<in> set names\<close> show ?thesis by simp
      next
        case False
        with M N(4) show ?thesis by simp
      qed
    qed
    moreover have "name_loop names n = graph_name N"
      using True N(2) by (simp add: name_loop.simps [of names n])
    ultimately show ?thesis using N(1,3) by (intro exI [of _ N]) simp
  next
    case False
    then have "name_loop names n = graph_name n" by (simp add: name_loop.simps [of names n])
    with False show ?thesis by (intro exI [of _ n]) auto
  qed
qed

text \<open>
  Claim C6. Where every graph has its tab name, \<^verbatim>\<open>get_new_graph_tab_name\<close> returns
  \<^verbatim>\<open>graph<N>\<close>, \<open>N\<close> written in decimal, for the smallest \<open>N \<ge> 0\<close> whose name is not
  among the existing tab names; so the name it returns is never one of them. The result
  is a function of the dictionary alone.
\<close>

theorem get_new_graph_tab_name_smallest_free:
  assumes "\<forall>graph_data \<in> snd ` set graph_data_dict. graph_data ''graphTabName'' \<noteq> None"
  shows "\<exists>N. get_new_graph_tab_name graph_data_dict = Inr (''graph'' @ str_nat N)
            \<and> ''graph'' @ str_nat N \<notin> existing_tab_names graph_data_dict
            \<and> (\<forall>M<N. ''graph'' @ str_nat M \<in> existing_tab_names graph_data_dict)"
proof -
  from assms
  have "\<forall>graph_data \<in> set (map snd graph_data_dict). graph_data ''graphTabName'' \<noteq> None"
    by simp
  from all_graph_names_loop_Inr [OF this, of "[]"] obtain names where
    names: "all_graph_names_loop (map snd graph_data_dict) [] = Inr names"
      "set names = existing_tab_names graph_data_dict"
    by (auto simp: existing_tab_names_def)
  from name_loop_first_free [of 0 names] obtain N where
    N: "name_loop names 0 = graph_name N" "graph_name N \<notin> set names"
      "\<forall>M. M < N \<longrightarrow> graph_name M \<in> set names"
    by auto
  show ?thesis
    using names N by (intro exI [of _ N]) (simp add: get_new_graph_tab_name_def graph_name_def)
qed

lemma str_nat_examples:
  "str_nat 0 = ''0''" "str_nat 7 = ''7''" "str_nat 10 = ''10''" "str_nat 42 = ''42''"
  by code_simp+

theorem get_new_graph_tab_name_smallest_free_witness:
  "[''graphTabName'' \<mapsto> ''graph1''] ''graphTabName'' \<noteq> None
   \<and> [''graphTabName'' \<mapsto> ''graph0''] ''graphTabName'' \<noteq> None
   \<and> (\<exists>N. get_new_graph_tab_name [(''id0'', [''graphTabName'' \<mapsto> ''graph1'']),
                                   (''id1'', [''graphTabName'' \<mapsto> ''graph0''])]
             = Inr (''graph'' @ str_nat N)
          \<and> ''graph'' @ str_nat N
              \<notin> existing_tab_names [(''id0'', [''graphTabName'' \<mapsto> ''graph1'']),
                                     (''id1'', [''graphTabName'' \<mapsto> ''graph0''])])
   \<and> get_new_graph_tab_name [(''id0'', [''graphTabName'' \<mapsto> ''graph1'']),
                              (''id1'', [''graphTabName'' \<mapsto> ''graph0''])]
       = Inr ''graph2''"
proof -
  let ?d = "[(''id0'', [''graphTabName'' \<mapsto> ''graph1'']),
             (''id1'', [''graphTabName'' \<mapsto> ''graph0''])] :: (string \<times> graph_data) list"
  have names: "\<forall>graph_data \<in> snd ` set ?d. graph_data ''graphTabName'' \<noteq> None"
    by simp
  have val: "get_new_graph_tab_name ?d = Inr ''graph2''"
    by code_simp
  from get_new_graph_tab_name_smallest_free [OF names]
  have "\<exists>N. get_new_graph_tab_name ?d = Inr (''graph'' @ str_nat N)
          \<and> ''graph'' @ str_nat N \<notin> existing_tab_names ?d"
    by blast
  with val show ?thesis by simp
qed

subsection \<open>Parameter code\<close>

lemma join_Cons: "join sep (x # xs) = x @ (if xs = [] then [] else sep @ join sep xs)"
  by (cases xs) simp_all

lemma param_dict_items_closed_form:
  "param_dict_items to_code param_dict level as_single_line value_num code =
     code @ (if param_dict = [] then []
             else (if value_num \<noteq> 0
                   then '', '' @ (if as_single_line then '''' else ''\<newline>'') else [])
                  @ join ('', '' @ (if as_single_line then '''' else ''\<newline>''))
                      (map (entry_code to_code level as_single_line) param_dict))"
proof (induction param_dict arbitrary: value_num code)
  case Nil
  then show ?case by simp
next
  case (Cons kv rest)
  obtain key val where kv: "kv = (key, val)" by (cases kv)
  show ?case
    unfolding kv param_dict_items.simps Let_def Cons.IH list.map join_Cons
    by (simp add: entry_code_def)
qed

text \<open>
  Claim C8, as the code has it. The output is the opening, the entries joined by a comma,
  a space and the line break of the mode, and the closing. A scalar entry is written
  \<^verbatim>\<open>key=value\<close> and a dictionary entry \<^verbatim>\<open>key = dict(...)\<close>, in single-line mode and in
  multi-line mode alike: the spaces around the equals sign follow the kind of the value,
  not the mode. The value of a dictionary entry is what the recursive call of the source
  returns for the nested dictionary.
\<close>

theorem param_dict_to_code_entries:
  "param_dict_to_code to_code param_dict level as_single_line =
     (let TAB_CONSTANT = (if as_single_line then '''' else TAB);
          NEWLINE_CONSTANT = (if as_single_line then '''' else ''\<newline>'');
          entry = (\<lambda>(key, val).
             str_mul TAB_CONSTANT (level + 1)
             @ (case val of
                  Scalar v \<Rightarrow> key @ ''='' @ to_code v
                | Dict d \<Rightarrow> key @ '' = '' @ param_dict_to_code to_code d (level + 1) False))
      in (if level = 0 then NEWLINE_CONSTANT else ''dict('' @ NEWLINE_CONSTANT)
         @ join ('', '' @ NEWLINE_CONSTANT) (map entry param_dict)
         @ (if level = 0 then NEWLINE_CONSTANT
            else NEWLINE_CONSTANT @ str_mul TAB_CONSTANT level @ '')''))"
proof -
  have items: "param_dict_items to_code param_dict level as_single_line 0 code =
      code @ join ('', '' @ (if as_single_line then '''' else ''\<newline>''))
               (map (entry_code to_code level as_single_line) param_dict)" for code
    unfolding param_dict_items_closed_form by (cases param_dict) simp_all
  show ?thesis
    unfolding param_dict_to_code_unfold [of to_code param_dict level as_single_line] items Let_def
      entry_code_def
    by (cases "level = 0"; cases as_single_line) simp_all
qed

text \<open>
  Claim C8, as the specification states it, fails. In multi-line mode the scalar entry
  of \<^verbatim>\<open>{"a": 1}\<close> is written \<^verbatim>\<open>a=1\<close>, not \<^verbatim>\<open>a = 1\<close>; in single-line mode the dictionary
  entry of \<^verbatim>\<open>{"a": {}}\<close> is written \<^verbatim>\<open>a = dict(\<close>, not \<^verbatim>\<open>a=dict(\<close>.
\<close>

theorem param_dict_to_code_spacing_counterexample:
  "param_dict_to_code id [(''a'', Scalar ''1'')] 0 False = ''\<newline>    a=1\<newline>''
   \<and> \<not> sublist ''a = 1'' (param_dict_to_code id [(''a'', Scalar ''1'')] 0 False)
   \<and> param_dict_to_code id [(''a'', Dict [])] 0 True = ''a = dict(\<newline>\<newline>    )''
   \<and> \<not> sublist ''a=dict('' (param_dict_to_code id [(''a'', Dict [])] 0 True)"
  by code_simp

text \<open>
  Claim C3 at the dictionary \<^verbatim>\<open>{"a": {"b": 1}}\<close> with \<^verbatim>\<open>as_single_line=True\<close>: the nested
  dictionary is written in multi-line mode, so the output has line breaks.
\<close>

theorem param_dict_to_code_nested_single_line:
  "param_dict_to_code id [(''a'', Dict [(''b'', Scalar ''1'')])] 0 True
     = ''a = dict(\<newline>        b=1\<newline>    )''
   \<and> CHR ''\<newline>'' \<in> set (param_dict_to_code id [(''a'', Dict [(''b'', Scalar ''1'')])] 0 True)"
  by code_simp

subsection \<open>Searching for a tag\<close>

lemma find_first_None_iff: "find_first sub s = None \<longleftrightarrow> \<not> sublist sub s"
  by (induction s) (auto simp: sublist_Cons_right)

lemma find_first_bound: "find_first sub s = Some i \<Longrightarrow> i + length sub \<le> length s"
proof (induction s arbitrary: i)
  case Nil
  then show ?case by (simp split: if_splits)
next
  case (Cons c cs)
  show ?case
  proof (cases "prefix sub (c # cs)")
    case True
    with Cons.prems have "i = 0" by simp
    with True show ?thesis using prefix_length_le by fastforce
  next
    case False
    with Cons.prems obtain j where "find_first sub cs = Some j" "i = Suc j" by auto
    with Cons.IH show ?thesis by simp
  qed
qed

lemma find_first_too_short: "length s < length sub \<Longrightarrow> find_first sub s = None"
  using find_first_bound [of sub s] by (cases "find_first sub s") fastforce+

text \<open>
  A tag whose first character occurs nowhere else in it cannot overlap a copy of itself:
  its first occurrence in \<open>pre @ tag @ rest\<close> is at \<open>length pre\<close> when \<open>pre\<close> has none.
\<close>

lemma prefix_overlap:
  assumes "a \<notin> set t" and "pre \<noteq> []" and "prefix (a # t) (pre @ (a # t) @ rest)"
  shows "prefix (a # t) pre"
proof -
  from assms(3) consider "prefix (a # t) pre"
    | us where "a # t = pre @ us" "prefix us ((a # t) @ rest)"
    unfolding prefix_append by blast
  then show ?thesis
  proof cases
    case 1
    then show ?thesis .
  next
    case 2
    show ?thesis
    proof (cases us)
      case Nil
      with 2(1) show ?thesis by simp
    next
      case (Cons u us')
      with 2(2) have "u = a" by simp
      moreover from 2(1) assms(2) Cons have "u \<in> set t"
        by (cases pre) auto
      ultimately show ?thesis using assms(1) by simp
    qed
  qed
qed

lemma find_first_at_marker:
  assumes "a \<notin> set t" and "\<not> sublist (a # t) pre"
  shows "find_first (a # t) (pre @ (a # t) @ rest) = Some (length pre)"
  using assms(2)
proof (induction pre)
  case Nil
  then show ?case by simp
next
  case (Cons c p)
  from Cons.prems have no_prefix: "\<not> prefix (a # t) (c # p)" and no_sub: "\<not> sublist (a # t) p"
    by (simp_all add: sublist_Cons_right)
  have "\<not> prefix (a # t) ((c # p) @ (a # t) @ rest)"
    using prefix_overlap [OF assms(1), of "c # p" rest] no_prefix by blast
  with Cons.IH [OF no_sub] show ?case by simp
qed

lemma find_first_SCRIPT_OPEN:
  "\<not> sublist SCRIPT_OPEN pre \<Longrightarrow>
     find_first SCRIPT_OPEN (pre @ SCRIPT_OPEN @ rest) = Some (length pre)"
  unfolding SCRIPT_OPEN_def by (rule find_first_at_marker) simp_all

lemma find_first_SCRIPT_CLOSE:
  "\<not> sublist SCRIPT_CLOSE pre \<Longrightarrow>
     find_first SCRIPT_CLOSE (pre @ SCRIPT_CLOSE @ rest) = Some (length pre)"
  unfolding SCRIPT_CLOSE_def by (rule find_first_at_marker) simp_all

lemma find_first_DIV_OPEN:
  "\<not> sublist DIV_OPEN pre \<Longrightarrow> find_first DIV_OPEN (pre @ DIV_OPEN @ rest) = Some (length pre)"
  unfolding DIV_OPEN_def by (rule find_first_at_marker) simp_all

lemma find_first_DIV_CLOSE:
  "\<not> sublist DIV_CLOSE pre \<Longrightarrow>
     find_first DIV_CLOSE (pre @ DIV_CLOSE @ rest) = Some (length pre)"
  unfolding DIV_CLOSE_def by (rule find_first_at_marker) simp_all

text \<open>A closing tag cannot begin inside the opening tag that the search starts from.\<close>

lemma no_SCRIPT_CLOSE_after_open:
  "sublist SCRIPT_CLOSE (SCRIPT_OPEN @ body) \<longleftrightarrow> sublist SCRIPT_CLOSE body"
  by (simp add: SCRIPT_OPEN_def SCRIPT_CLOSE_def sublist_Cons_right)

lemma no_DIV_CLOSE_after_open:
  "sublist DIV_CLOSE (DIV_OPEN @ body) \<longleftrightarrow> sublist DIV_CLOSE body"
  by (simp add: DIV_OPEN_def DIV_CLOSE_def sublist_Cons_right)

lemma length_SCRIPT_OPEN: "length SCRIPT_OPEN = 31"
  by (simp add: SCRIPT_OPEN_def)

lemma length_SCRIPT_CLOSE: "length SCRIPT_CLOSE = 9"
  by (simp add: SCRIPT_CLOSE_def)

lemma py_find_at_offset:
  "py_find (seen @ s) sub (int (length seen)) =
     (case find_first sub s of None \<Rightarrow> - 1 | Some i \<Rightarrow> int (length seen) + int i)"
  by (simp add: py_find_def)

lemma py_find_absent: "\<not> sublist sub s \<Longrightarrow> py_find s sub 0 = - 1"
  by (simp add: py_find_def find_first_None_iff [symmetric])

lemma py_find_DIV_CLOSE_from_minus_one: "py_find s DIV_CLOSE (- 1) = - 1"
proof -
  have "length (drop (nat (max 0 (- 1 + int (length s)))) s) < length DIV_CLOSE"
    by (simp add: DIV_CLOSE_def)
  then have "find_first DIV_CLOSE (drop (nat (max 0 (- 1 + int (length s)))) s) = None"
    by (rule find_first_too_short)
  then show ?thesis by (simp add: py_find_def Let_def)
qed

lemma py_slice_middle:
  "py_slice (xs @ ys @ zs) (int (length xs)) (int (length xs) + int (length ys)) = ys"
  by (simp add: py_slice_def)

subsection \<open>The markup of the container\<close>

text \<open>
  On a document with the opening marker and a closing tag after it, the slice ends where
  the closing tag begins: the markup is the opening marker and the text up to the
  closing tag, without the closing tag.
\<close>

lemma markup_stops_before_closing_tag:
  assumes pre: "\<not> sublist DIV_OPEN pre" and mid: "\<not> sublist DIV_CLOSE mid"
  shows "html (get_html_and_script_from_figure (pre @ DIV_OPEN @ mid @ DIV_CLOSE @ rest))
       = DIV_OPEN @ mid"
proof -
  let ?doc = "pre @ DIV_OPEN @ mid @ DIV_CLOSE @ rest"
  have s1: "py_find ?doc DIV_OPEN 0 = int (length pre)"
    using py_find_at_offset [of "[]" ?doc DIV_OPEN]
      find_first_DIV_OPEN [OF pre, of "mid @ DIV_CLOSE @ rest"]
    by simp
  have "\<not> sublist DIV_CLOSE (DIV_OPEN @ mid)"
    using mid by (simp add: no_DIV_CLOSE_after_open)
  from find_first_DIV_CLOSE [OF this, of rest]
  have "find_first DIV_CLOSE (DIV_OPEN @ mid @ DIV_CLOSE @ rest) = Some (length (DIV_OPEN @ mid))"
    by simp
  with py_find_at_offset [of pre "DIV_OPEN @ mid @ DIV_CLOSE @ rest" DIV_CLOSE]
  have s2: "py_find ?doc DIV_CLOSE (int (length pre))
              = int (length pre) + int (length (DIV_OPEN @ mid))"
    by simp
  have "py_slice ?doc (int (length pre)) (int (length pre) + int (length (DIV_OPEN @ mid)))
      = DIV_OPEN @ mid"
    using py_slice_middle [of pre "DIV_OPEN @ mid" "DIV_CLOSE @ rest"] by simp
  then show ?thesis
    by (simp only: get_html_and_script_from_figure_def Let_def s1 s2 html_and_script.simps)
qed

text \<open>
  Claim C1 at the document \<^verbatim>\<open><div><div id="g" class="plotly-graph-div"></div></div>\<close>:
  the markup returned is \<^verbatim>\<open><div id="g" class="plotly-graph-div">\<close>, the container without
  its closing tag, and not the outer text of the container.
\<close>

theorem markup_excludes_closing_tag:
  \<open>html (get_html_and_script_from_figure
           ''<div><div id="g" class="plotly-graph-div"></div></div>'')
     = ''<div id="g" class="plotly-graph-div">''
   \<and> html (get_html_and_script_from_figure
           ''<div><div id="g" class="plotly-graph-div"></div></div>'')
     \<noteq> ''<div id="g" class="plotly-graph-div"></div>''\<close>
  by code_simp

text \<open>
  Claim C2, as the code has it. On a document without the opening marker of the
  container the function does not fail: both searches give \<open>-1\<close>, the slice from \<open>-1\<close> to
  \<open>-1\<close> is empty, and the markup returned is the empty string.
\<close>

theorem missing_container_gives_empty_markup:
  "\<not> sublist DIV_OPEN original_html \<Longrightarrow>
     html (get_html_and_script_from_figure original_html) = ''''"
  by (simp add: get_html_and_script_from_figure_def py_find_absent
      py_find_DIV_CLOSE_from_minus_one py_slice_def)

theorem missing_container_gives_empty_markup_witness:
  \<open>\<not> sublist DIV_OPEN ''<script type="text/javascript">a=1</script>''
   \<and> html (get_html_and_script_from_figure ''<script type="text/javascript">a=1</script>'')
       = ''''\<close>
proof -
  have absent: \<open>\<not> sublist DIV_OPEN ''<script type="text/javascript">a=1</script>''\<close>
    by code_simp
  from missing_container_gives_empty_markup [OF absent] absent show ?thesis by simp
qed

text \<open>
  Claim C2, as the specification states it, fails: the document \<^verbatim>\<open><p>no chart</p>\<close> has no
  opening marker, and the function returns the empty markup and the empty script.
\<close>

theorem missing_container_counterexample:
  "\<not> sublist DIV_OPEN ''<p>no chart</p>''
   \<and> get_html_and_script_from_figure ''<p>no chart</p>'' = \<lparr>html = '''', script = ''''\<rparr>"
  by code_simp

subsection \<open>The script\<close>

text \<open>One round of the loop on a block that is closed: its body is appended.\<close>

lemma script_loop_block:
  assumes pre: "\<not> sublist SCRIPT_OPEN pre" and body: "\<not> sublist SCRIPT_CLOSE body"
  shows "script_loop (seen @ pre @ SCRIPT_OPEN @ body @ SCRIPT_CLOSE @ rest) acc
           (int (length seen))
       = script_loop (seen @ pre @ SCRIPT_OPEN @ body @ SCRIPT_CLOSE @ rest)
           (acc @ body @ '';\<newline>'')
           (int (length (seen @ pre @ SCRIPT_OPEN @ body @ SCRIPT_CLOSE)))"
proof -
  let ?doc = "seen @ pre @ SCRIPT_OPEN @ body @ SCRIPT_CLOSE @ rest"
  have s1: "py_find ?doc SCRIPT_OPEN (int (length seen)) = int (length seen) + int (length pre)"
    using find_first_SCRIPT_OPEN [OF pre, of "body @ SCRIPT_CLOSE @ rest"]
    by (simp add: py_find_at_offset)
  have "\<not> sublist SCRIPT_CLOSE (SCRIPT_OPEN @ body)"
    using body by (simp add: no_SCRIPT_CLOSE_after_open)
  from find_first_SCRIPT_CLOSE [OF this, of rest]
  have "find_first SCRIPT_CLOSE (SCRIPT_OPEN @ body @ SCRIPT_CLOSE @ rest)
      = Some (31 + length body)"
    by (simp add: length_SCRIPT_OPEN)
  with py_find_at_offset [of "seen @ pre" "SCRIPT_OPEN @ body @ SCRIPT_CLOSE @ rest" SCRIPT_CLOSE]
  have s2: "py_find ?doc SCRIPT_CLOSE (int (length seen) + int (length pre))
              = int (length seen) + int (length pre) + 31 + int (length body)"
    by simp
  have sl: "py_slice ?doc (int (length seen) + (int (length pre) + 31))
              (int (length seen) + (int (length pre) + (31 + int (length body)))) = body"
    using py_slice_middle [of "seen @ pre @ SCRIPT_OPEN" body "SCRIPT_CLOSE @ rest"]
    by (simp add: length_SCRIPT_OPEN add.assoc)
  have lt: "int (length seen) < int (length ?doc)"
    by (simp add: length_SCRIPT_OPEN)
  show ?thesis
    apply (subst script_loop.simps)
    apply (simp only: lt if_True s1 s2 Let_def)
    apply (simp add: sl length_SCRIPT_OPEN length_SCRIPT_CLOSE add.assoc)
    done
qed

text \<open>The loop ends, adding nothing, where no opening tag is left.\<close>

lemma script_loop_no_open:
  assumes "\<not> sublist SCRIPT_OPEN tail"
  shows "script_loop (seen @ tail) acc (int (length seen)) = acc"
  using assms
  by (subst script_loop.simps) (simp add: py_find_at_offset find_first_None_iff [symmetric])

text \<open>The loop ends, adding nothing, at an opening tag that is never closed.\<close>

lemma script_loop_unterminated:
  assumes pre: "\<not> sublist SCRIPT_OPEN pre" and rest: "\<not> sublist SCRIPT_CLOSE rest"
  shows "script_loop (seen @ pre @ SCRIPT_OPEN @ rest) acc (int (length seen)) = acc"
proof -
  let ?doc = "seen @ pre @ SCRIPT_OPEN @ rest"
  have s1: "py_find ?doc SCRIPT_OPEN (int (length seen)) = int (length seen) + int (length pre)"
    using find_first_SCRIPT_OPEN [OF pre, of rest] by (simp add: py_find_at_offset)
  have "\<not> sublist SCRIPT_CLOSE (SCRIPT_OPEN @ rest)"
    using rest by (simp add: no_SCRIPT_CLOSE_after_open)
  then have "find_first SCRIPT_CLOSE (SCRIPT_OPEN @ rest) = None"
    by (simp add: find_first_None_iff)
  with py_find_at_offset [of "seen @ pre" "SCRIPT_OPEN @ rest" SCRIPT_CLOSE]
  have s2: "py_find ?doc SCRIPT_CLOSE (int (length seen) + int (length pre)) = - 1"
    by simp
  show ?thesis
    apply (subst script_loop.simps)
    apply (simp only: s1 s2 Let_def)
    apply simp
    done
qed

lemma script_loop_blocks:
  assumes "\<forall>(pre, body) \<in> set blocks.
      \<not> sublist SCRIPT_OPEN pre \<and> \<not> sublist SCRIPT_CLOSE body"
    and tail: "\<And>seen acc. script_loop (seen @ tail) acc (int (length seen)) = acc"
  shows "script_loop (seen @ script_blocks blocks @ tail) acc (int (length seen))
       = acc @ concat (map (\<lambda>(pre, body). body @ '';\<newline>'') blocks)"
  using assms(1)
proof (induction blocks arbitrary: seen acc)
  case Nil
  then show ?case by (simp add: script_blocks_def tail)
next
  case (Cons b blocks)
  obtain pre body where b: "b = (pre, body)" by (cases b)
  from Cons.prems b have wf: "\<not> sublist SCRIPT_OPEN pre" "\<not> sublist SCRIPT_CLOSE body"
    and rest: "\<forall>(pre, body) \<in> set blocks.
      \<not> sublist SCRIPT_OPEN pre \<and> \<not> sublist SCRIPT_CLOSE body"
    by auto
  have doc: "seen @ script_blocks (b # blocks) @ tail
      = seen @ pre @ SCRIPT_OPEN @ body @ SCRIPT_CLOSE @ (script_blocks blocks @ tail)"
    by (simp add: script_blocks_def b)
  have doc': "seen @ script_blocks (b # blocks) @ tail
      = (seen @ pre @ SCRIPT_OPEN @ body @ SCRIPT_CLOSE) @ script_blocks blocks @ tail"
    by (simp add: script_blocks_def b)
  have "script_loop (seen @ script_blocks (b # blocks) @ tail) acc (int (length seen))
      = script_loop (seen @ script_blocks (b # blocks) @ tail) (acc @ body @ '';\<newline>'')
          (int (length (seen @ pre @ SCRIPT_OPEN @ body @ SCRIPT_CLOSE)))"
    unfolding doc by (rule script_loop_block [OF wf])
  also have "\<dots> = (acc @ body @ '';\<newline>'')
      @ concat (map (\<lambda>(pre, body). body @ '';\<newline>'') blocks)"
    unfolding doc' by (rule Cons.IH [OF rest])
  finally show ?case by (simp add: b)
qed

text \<open>
  Claim C4. Take a document made of script blocks, each the fixed opening tag, a body
  without closing tag and the closing tag, with text that has no opening tag before each
  block and after the last. The script returned is the bodies in the order of the
  document, each followed by \<^verbatim>\<open>;\<close> and a line break; nothing is reordered or dropped.
\<close>

theorem script_concatenates_block_bodies:
  assumes "\<forall>(pre, body) \<in> set blocks.
      \<not> sublist SCRIPT_OPEN pre \<and> \<not> sublist SCRIPT_CLOSE body"
    and "\<not> sublist SCRIPT_OPEN tail"
  shows "script (get_html_and_script_from_figure
                   (concat (map (\<lambda>(pre, body). pre @ SCRIPT_OPEN @ body @ SCRIPT_CLOSE) blocks)
                    @ tail))
       = concat (map (\<lambda>(pre, body). body @ '';\<newline>'') blocks)"
proof -
  have "script_loop ([] @ script_blocks blocks @ tail) [] (int (length ([] :: string)))
      = [] @ concat (map (\<lambda>(pre, body). body @ '';\<newline>'') blocks)"
    using assms(1) script_loop_no_open [OF assms(2)] by (rule script_loop_blocks)
  then show ?thesis
    by (simp add: get_html_and_script_from_figure_def script_blocks_def)
qed

theorem script_concatenates_block_bodies_witness:
  \<open>\<not> sublist SCRIPT_OPEN ''<div id="g"></div>'' \<and> \<not> sublist SCRIPT_CLOSE ''a=1''
   \<and> \<not> sublist SCRIPT_OPEN '' '' \<and> \<not> sublist SCRIPT_CLOSE ''b=2''
   \<and> \<not> sublist SCRIPT_OPEN ''</div>''
   \<and> script (get_html_and_script_from_figure
       ''<div id="g"></div><script type="text/javascript">a=1</script> <script type="text/javascript">b=2</script></div>'')
     = ''a=1;\<newline>b=2;\<newline>''
   \<and> script (get_html_and_script_from_figure ''<div id="g"></div>'') = ''''\<close>
proof -
  have blocks: \<open>\<forall>(pre, body) \<in> set [(''<div id="g"></div>'', ''a=1''), ('' '', ''b=2'')].
       \<not> sublist SCRIPT_OPEN pre \<and> \<not> sublist SCRIPT_CLOSE body\<close>
    by (simp add: SCRIPT_OPEN_def SCRIPT_CLOSE_def sublist_Cons_right)
  have tail: \<open>\<not> sublist SCRIPT_OPEN ''</div>''\<close>
    by (simp add: SCRIPT_OPEN_def sublist_Cons_right)
  have none: \<open>\<not> sublist SCRIPT_OPEN ''<div id="g"></div>''\<close>
    by (simp add: SCRIPT_OPEN_def sublist_Cons_right)
  from script_concatenates_block_bodies [OF blocks tail]
  have two: \<open>script (get_html_and_script_from_figure
       ''<div id="g"></div><script type="text/javascript">a=1</script> <script type="text/javascript">b=2</script></div>'')
     = ''a=1;\<newline>b=2;\<newline>''\<close>
    by (simp add: SCRIPT_OPEN_def SCRIPT_CLOSE_def)
  from script_concatenates_block_bodies [of "[]", OF _ none]
  have zero: \<open>script (get_html_and_script_from_figure ''<div id="g"></div>'') = ''''\<close>
    by simp
  from blocks tail two zero show ?thesis by simp
qed

text \<open>
  Claim C10. Where the closed script blocks are followed by an opening tag with no
  closing tag after it, the loop stops there and the function returns: the script is
  the bodies of the closed blocks before it, and nothing of the open block.
\<close>

theorem unterminated_script_block_contributes_nothing:
  assumes "\<forall>(pre, body) \<in> set blocks.
      \<not> sublist SCRIPT_OPEN pre \<and> \<not> sublist SCRIPT_CLOSE body"
    and "\<not> sublist SCRIPT_OPEN pre" and "\<not> sublist SCRIPT_CLOSE rest"
  shows "script (get_html_and_script_from_figure
                   (concat (map (\<lambda>(pre, body). pre @ SCRIPT_OPEN @ body @ SCRIPT_CLOSE) blocks)
                    @ pre @ SCRIPT_OPEN @ rest))
       = concat (map (\<lambda>(pre, body). body @ '';\<newline>'') blocks)"
proof -
  have "script_loop ([] @ script_blocks blocks @ (pre @ SCRIPT_OPEN @ rest)) []
          (int (length ([] :: string)))
      = [] @ concat (map (\<lambda>(pre, body). body @ '';\<newline>'') blocks)"
    using assms(1) script_loop_unterminated [OF assms(2,3)] by (rule script_loop_blocks)
  then show ?thesis
    by (simp add: get_html_and_script_from_figure_def script_blocks_def)
qed

theorem unterminated_script_block_contributes_nothing_witness:
  \<open>\<not> sublist SCRIPT_OPEN ''<p>'' \<and> \<not> sublist SCRIPT_CLOSE ''a=1''
   \<and> \<not> sublist SCRIPT_OPEN ''</p>'' \<and> \<not> sublist SCRIPT_CLOSE ''b=2</p>''
   \<and> script (get_html_and_script_from_figure
       ''<p><script type="text/javascript">a=1</script></p><script type="text/javascript">b=2</p>'')
     = ''a=1;\<newline>''\<close>
proof -
  have blocks: \<open>\<forall>(pre, body) \<in> set [(''<p>'', ''a=1'')].
       \<not> sublist SCRIPT_OPEN pre \<and> \<not> sublist SCRIPT_CLOSE body\<close>
    by (simp add: SCRIPT_OPEN_def SCRIPT_CLOSE_def sublist_Cons_right)
  have pre: \<open>\<not> sublist SCRIPT_OPEN ''</p>''\<close>
    by (simp add: SCRIPT_OPEN_def sublist_Cons_right)
  have rest: \<open>\<not> sublist SCRIPT_CLOSE ''b=2</p>''\<close>
    by (simp add: SCRIPT_CLOSE_def sublist_Cons_right)
  from unterminated_script_block_contributes_nothing [OF blocks pre rest]
  have \<open>script (get_html_and_script_from_figure
       ''<p><script type="text/javascript">a=1</script></p><script type="text/javascript">b=2</p>'')
     = ''a=1;\<newline>''\<close>
    by (simp add: SCRIPT_OPEN_def SCRIPT_CLOSE_def)
  with blocks pre rest show ?thesis by simp
qed

end
